theory Spec2Isabelle
  imports Main
begin

section \<open>Board definitions (store/machine/boards)\<close>

text \<open>
  The board table is a JavaScript object literal with three own keys. It is modelled as
  a finite map from the key to a record of the fourteen capability fields; a key the
  literal does not define reads as \<open>None\<close>, the model of \<^verbatim>\<open>undefined\<close>.
\<close>

record board =
  motorWarningCurrent :: nat
  motorLimitCurrent :: nat
  seriesResistor :: nat
  microstepping :: bool
  microsteppingInterpolation :: bool
  maxDrives :: nat
  maxHeaters :: nat
  maxThermistors :: nat
  maxRtdBoards :: nat
  maxFans :: nat
  hasEthernet :: bool
  hasWiFi :: bool
  hasPowerFailureDetection :: bool
  hasMotorLoadDetection :: bool

definition duetwifi10 :: board where
  "duetwifi10 = \<lparr>motorWarningCurrent = 2000, motorLimitCurrent = 2400, seriesResistor = 4700,
     microstepping = True, microsteppingInterpolation = False, maxDrives = 10, maxHeaters = 8,
     maxThermistors = 8, maxRtdBoards = 8, maxFans = 3, hasEthernet = False, hasWiFi = True,
     hasPowerFailureDetection = True, hasMotorLoadDetection = True\<rparr>"

definition duetethernet10 :: board where
  "duetethernet10 = \<lparr>motorWarningCurrent = 2000, motorLimitCurrent = 2400, seriesResistor = 4700,
     microstepping = True, microsteppingInterpolation = False, maxDrives = 10, maxHeaters = 8,
     maxThermistors = 8, maxRtdBoards = 8, maxFans = 3, hasEthernet = True, hasWiFi = False,
     hasPowerFailureDetection = True, hasMotorLoadDetection = True\<rparr>"

definition duetm10 :: board where
  "duetm10 = \<lparr>motorWarningCurrent = 1200, motorLimitCurrent = 1600, seriesResistor = 2200,
     microstepping = True, microsteppingInterpolation = True, maxDrives = 7, maxHeaters = 3,
     maxThermistors = 4, maxRtdBoards = 4, maxFans = 3, hasEthernet = True, hasWiFi = False,
     hasPowerFailureDetection = True, hasMotorLoadDetection = True\<rparr>"

definition boardDefinitions :: "string \<rightharpoonup> board" where
  "boardDefinitions =
     [''duetwifi10'' \<mapsto> duetwifi10, ''duetethernet10'' \<mapsto> duetethernet10, ''duetm10'' \<mapsto> duetm10]"

definition defaultBoardName :: string where
  "defaultBoardName = ''duetwifi10''"

definition defaultBoard :: "board option" where
  "defaultBoard = boardDefinitions defaultBoardName"

definition isBoardValid :: "string \<Rightarrow> bool" where
  "isBoardValid boardType = (boardDefinitions boardType \<noteq> None)"

text \<open>
  \<open>getBoardDefinition\<close> returns the value it hands back together with the lines it
  writes with \<^verbatim>\<open>console.warn\<close>.
\<close>

definition getBoardDefinition :: "string \<Rightarrow> board option \<times> string list" where
  "getBoardDefinition boardType =
     (if boardDefinitions boardType \<noteq> None then (boardDefinitions boardType, [])
      else (boardDefinitions defaultBoardName,
            [''Unsupported board '' @ boardType @ '', assuming Duet WiFi'']))"

section \<open>Error classes (utils/errors.js)\<close>

text \<open>
  A thrown value is an instance of one of the classes of \<^verbatim>\<open>utils/errors.js\<close> or of
  the built-in \<^verbatim>\<open>Error\<close>, with its \<^verbatim>\<open>message\<close>. A message is a string literal
  or the result of \<^verbatim>\<open>i18n.t(key, args)\<close>; the translation tables are not part of
  the store, so a translated text is kept symbolically as its key and arguments.
\<close>

datatype error_class =
    Error
  | NotImplementedError
  | DisconnectedError
  | TimeoutError
  | OperationFailedError
  | LoginError
  | InvalidPasswordError
  | NoFreeSessionError
  | CodeError
  | CodeBufferError
  | CodeResponseError

datatype message_text = Str string | I18n_t string "string list"

record exn =
  cls :: error_class
  message :: message_text

text \<open>The \<^verbatim>\<open>extends\<close> clause of each class declaration.\<close>

fun extends :: "error_class \<Rightarrow> error_class option" where
  "extends Error = None"
| "extends NotImplementedError = Some Error"
| "extends DisconnectedError = Some Error"
| "extends TimeoutError = Some Error"
| "extends OperationFailedError = Some Error"
| "extends LoginError = Some Error"
| "extends InvalidPasswordError = Some LoginError"
| "extends NoFreeSessionError = Some LoginError"
| "extends CodeError = Some Error"
| "extends CodeBufferError = Some CodeError"
| "extends CodeResponseError = Some CodeError"

text \<open>
  The prototype chain of a class: the class, its parent, the parent's parent. The
  hierarchy of \<^verbatim>\<open>errors.js\<close> is two levels deep below \<^verbatim>\<open>Error\<close>.
\<close>

definition prototype_chain :: "error_class \<Rightarrow> error_class list" where
  "prototype_chain c =
     c # (case extends c of None \<Rightarrow> []
          | Some p \<Rightarrow> p # (case extends p of None \<Rightarrow> [] | Some g \<Rightarrow> [g]))"

definition instanceof :: "exn \<Rightarrow> error_class \<Rightarrow> bool" where
  "instanceof e c = (c \<in> set (prototype_chain (cls e)))"

definition new_Error :: "message_text \<Rightarrow> exn" where
  "new_Error msg = \<lparr>cls = Error, message = msg\<rparr>"

definition new_NotImplementedError :: "string \<Rightarrow> exn" where
  "new_NotImplementedError field =
     \<lparr>cls = NotImplementedError, message = I18n_t ''error.notImplemented'' [field]\<rparr>"

definition new_DisconnectedError :: exn where
  "new_DisconnectedError =
     \<lparr>cls = DisconnectedError, message = I18n_t ''error.disconnectedError'' []\<rparr>"

definition new_TimeoutError :: exn where
  "new_TimeoutError = \<lparr>cls = TimeoutError, message = I18n_t ''error.timeoutError'' []\<rparr>"

definition new_OperationFailedError :: "string \<Rightarrow> exn" where
  "new_OperationFailedError reason =
     \<lparr>cls = OperationFailedError, message = I18n_t ''error.operationFailed'' [reason]\<rparr>"

definition new_InvalidPasswordError :: exn where
  "new_InvalidPasswordError =
     \<lparr>cls = InvalidPasswordError, message = I18n_t ''error.invalidPassword'' []\<rparr>"

definition new_NoFreeSessionError :: exn where
  "new_NoFreeSessionError =
     \<lparr>cls = NoFreeSessionError, message = I18n_t ''error.noFreeSession'' []\<rparr>"

definition new_CodeBufferError :: exn where
  "new_CodeBufferError =
     \<lparr>cls = CodeBufferError, message = I18n_t ''error.codeBufferError'' []\<rparr>"

definition new_CodeResponseError :: exn where
  "new_CodeResponseError =
     \<lparr>cls = CodeResponseError, message = I18n_t ''error.codeResponseError'' []\<rparr>"

section \<open>The store (store/index)\<close>

subsection \<open>State\<close>

type_synonym hostname = string

text \<open>
  A machine module is what \<^verbatim>\<open>machine(connector)\<close> builds: \<open>Machine None\<close> for the
  factory defaults (\<^verbatim>\<open>machine()\<close>), \<open>Machine (Some c)\<close> for the module of the
  connector instance \<open>c\<close>. The connector instance is whatever the handshake returned, so
  its type is a parameter.
\<close>

datatype 'c module = Machine "'c option"

datatype log_type = LSuccess | LWarning | LError

text \<open>The mutations the actions commit, by their Vuex names.\<close>

datatype 'c mutation =
    AddMachine hostname "'c module"
  | RemoveMachine hostname
  | SetConnecting bool
  | SetDisconnecting bool
  | SetSelectedMachine hostname
  | Ui_addMachine hostname
  | Machine_unregister hostname

text \<open>The calls an action makes on its collaborators.\<close>

datatype 'c call =
    Connector_connect hostname string string
  | ConnectorInstance_register 'c "'c module"
  | Dispatch_disconnect hostname
  | Dispatch_sendCode hostname string
  | Logger_logGlobal log_type message_text "message_text option"
  | Logger_logCode string string hostname
  | Log log_type message_text
  | Console_warn exn

datatype 'c effect = Commit "'c mutation" | Call "'c call"

text \<open>
  The state of the store and of the module-level object \<^verbatim>\<open>machines\<close>:
  \<^item> \<open>modules\<close> is \<^verbatim>\<open>state.machines\<close>, the sub-modules registered under the path
    \<^verbatim>\<open>['machines', hostname]\<close>; \<^verbatim>\<open>state.machines.hasOwnProperty(h)\<close> is
    \<open>modules s h \<noteq> None\<close>;
  \<^item> \<open>machines\<close> is the module-level constant \<^verbatim>\<open>machines\<close>;
  \<^item> \<open>machine\<close> is the module mounted at the root path \<^verbatim>\<open>'machine'\<close>;
  \<^item> \<open>ui_machines\<close> is the set of endpoints the UI module has been given;
  \<^item> \<open>history\<close> lists every commit and collaborator call so far, oldest first.
\<close>

record 'c store =
  isConnecting :: bool
  isDisconnecting :: bool
  selectedMachine :: hostname
  modules :: "hostname \<rightharpoonup> 'c module"
  machines :: "hostname \<rightharpoonup> 'c module"
  machine :: "'c module option"
  ui_machines :: "hostname set"
  history :: "'c effect list"

definition initial :: "'c store" where
  "initial = \<lparr>isConnecting = False, isDisconnecting = False, selectedMachine = ''default'',
     modules = [''default'' \<mapsto> Machine None], machines = [''default'' \<mapsto> Machine None],
     machine = Some (Machine None), ui_machines = {}, history = []\<rparr>"

subsection \<open>Getters\<close>

definition isConnected :: "'c store \<Rightarrow> bool" where
  "isConnected s = (selectedMachine s \<noteq> ''default'')"

definition isLocal :: "string \<Rightarrow> bool" where
  "isLocal location_hostname =
     (location_hostname = ''localhost'' \<or> location_hostname = ''127.0.0.1''
      \<or> location_hostname = ''[::1]'')"

subsection \<open>Mutations\<close>

text \<open>
  Modelled from the spec: the mutation \<^verbatim>\<open>addMachine\<close> of the UI module (\<^verbatim>\<open>ui.js\<close> is
  not among the sources). The UI collaborator mirrors the membership of the registry for
  display; it is given an endpoint and adds it to its set.
\<close>

definition ui_addMachine :: "hostname \<Rightarrow> 'c store \<Rightarrow> 'c store" where
  "ui_addMachine h s = s\<lparr>ui_machines := insert h (ui_machines s)\<rparr>"

text \<open>
  Modelled from the spec: the mutation \<^verbatim>\<open>unregister\<close> of a machine module
  (\<^verbatim>\<open>machine/index.js\<close> is not among the sources). It detaches the command routing of
  the session, inside the session; the state of the root store is as before.
\<close>

definition machine_unregister :: "hostname \<Rightarrow> 'c store \<Rightarrow> 'c store" where
  "machine_unregister h s = s"

text \<open>
  The mutations of the root store. \<^verbatim>\<open>registerModule\<close> and \<^verbatim>\<open>unregisterModule\<close> are
  the store's own methods, modelled by what they do to the module tree: they set and delete
  the entry at the path. \<open>SetSelectedMachine\<close> unmounts \<^verbatim>\<open>'machine'\<close> and mounts
  \<^verbatim>\<open>machines[selectedMachine]\<close>, which is \<open>None\<close> when the object has no such key.
\<close>

fun mutate :: "'c mutation \<Rightarrow> 'c store \<Rightarrow> 'c store" where
  "mutate (AddMachine h moduleInstance) s =
     s\<lparr>machines := (machines s)(h \<mapsto> moduleInstance), modules := (modules s)(h \<mapsto> moduleInstance)\<rparr>"
| "mutate (RemoveMachine h) s =
     s\<lparr>modules := (modules s)(h := None), machines := (machines s)(h := None)\<rparr>"
| "mutate (SetConnecting connecting) s = s\<lparr>isConnecting := connecting\<rparr>"
| "mutate (SetDisconnecting disconnecting) s = s\<lparr>isDisconnecting := disconnecting\<rparr>"
| "mutate (SetSelectedMachine h) s = s\<lparr>machine := machines s h, selectedMachine := h\<rparr>"
| "mutate (Ui_addMachine h) s = ui_addMachine h s"
| "mutate (Machine_unregister h) s = machine_unregister h s"

text \<open>A commit applies the mutation; a call on a collaborator is recorded.\<close>

definition commit :: "'c mutation \<Rightarrow> 'c store \<Rightarrow> 'c store" where
  "commit m s = (mutate m s)\<lparr>history := history s @ [Commit m]\<rparr>"

definition call :: "'c call \<Rightarrow> 'c store \<Rightarrow> 'c store" where
  "call c s = s\<lparr>history := history s @ [Call c]\<rparr>"

subsection \<open>Actions\<close>

text \<open>
  An action is an \<^verbatim>\<open>async\<close> function. Its model returns the error its promise rejects
  with (\<open>None\<close> when it resolves) and the store it leaves. Each action has one
  \<^verbatim>\<open>await\<close>; the model cuts it there: the first part runs from the call to the
  \<^verbatim>\<open>await\<close>, the second from the settled \<^verbatim>\<open>await\<close> to the end, on whatever the
  store is at that time. What the awaited collaborator answers is an argument of the
  second part. The logger, \<^verbatim>\<open>i18n.t\<close> and the commits return normally.
\<close>

text \<open>
  The destructuring defaults of the payloads. \<^verbatim>\<open>location.hostname\<close> is an argument.
\<close>

definition connect_payload ::
  "string \<Rightarrow> string option \<times> string option \<times> string option \<Rightarrow> hostname \<times> string \<times> string" where
  "connect_payload location_hostname p =
     (case p of (h, u, pw) \<Rightarrow>
        (case h of None \<Rightarrow> location_hostname | Some x \<Rightarrow> x,
         case u of None \<Rightarrow> [] | Some x \<Rightarrow> x,
         case pw of None \<Rightarrow> ''reprap'' | Some x \<Rightarrow> x))"

definition disconnect_payload ::
  "(hostname \<times> bool option) option \<Rightarrow> 'c store \<Rightarrow> hostname \<times> bool" where
  "disconnect_payload p s =
     (case p of None \<Rightarrow> (selectedMachine s, True)
      | Some (h, d) \<Rightarrow> (h, case d of None \<Rightarrow> True | Some b \<Rightarrow> b))"

text \<open>
  What the collaborators answer during one connect: the settled value of
  \<^verbatim>\<open>connector.connect(hostname, user, password)\<close>, and whether the module factory
  \<^verbatim>\<open>machine(connectorInstance)\<close> and \<^verbatim>\<open>connectorInstance.register(moduleInstance)\<close>
  throw. All three calls are inside the \<^verbatim>\<open>try\<close> block.
\<close>

record 'c connect_io =
  handshake :: "exn + 'c"
  machine_throws :: "exn option"
  register_throws :: "exn option"

definition connect_admit :: "hostname \<Rightarrow> string \<Rightarrow> string \<Rightarrow> 'c store \<Rightarrow> exn option \<times> 'c store" where
  "connect_admit hostname user password s =
     (if hostname = ''default'' then
        (Some (new_Error (Str ''Invalid hostname (default is reserved)'')), s)
      else if modules s hostname \<noteq> None then
        (Some (new_Error (Str (''Host '' @ hostname @ '' is already connected!''))), s)
      else if isConnecting s then
        (Some (new_Error (Str ''Already connecting'')), s)
      else
        (None, call (Connector_connect hostname user password) (commit (SetConnecting True) s)))"

text \<open>The body of the \<^verbatim>\<open>try\<close> block, with the error it throws, if any.\<close>

definition connect_try :: "hostname \<Rightarrow> 'c connect_io \<Rightarrow> 'c store \<Rightarrow> exn option \<times> 'c store" where
  "connect_try hostname io s =
     (case handshake io of
        Inl e \<Rightarrow> (Some e, s)
      | Inr connectorInstance \<Rightarrow>
          (case machine_throws io of
             Some e \<Rightarrow> (Some e, s)
           | None \<Rightarrow>
               (let moduleInstance = Machine (Some connectorInstance);
                    s1 = commit (AddMachine hostname moduleInstance) s;
                    s2 = commit (Ui_addMachine hostname) s1;
                    s3 = call (ConnectorInstance_register connectorInstance moduleInstance) s2
                in case register_throws io of
                     Some e \<Rightarrow> (Some e, s3)
                   | None \<Rightarrow>
                       (let s4 = commit (SetSelectedMachine hostname) s3
                        in (None,
                            call (Logger_logGlobal LSuccess
                                    (I18n_t ''notification.connected'' [hostname]) None) s4)))))"

definition connect_resume :: "hostname \<Rightarrow> 'c connect_io \<Rightarrow> 'c store \<Rightarrow> exn option \<times> 'c store" where
  "connect_resume hostname io s =
     (let s1 = (case connect_try hostname io s of
                  (None, s') \<Rightarrow> s'
                | (Some e, s') \<Rightarrow>
                    call (Logger_logGlobal LError
                            (I18n_t ''error.connectError'' [hostname]) (Some (message e))) s')
      in (None, commit (SetConnecting False) s1))"

definition connect ::
  "hostname \<Rightarrow> string \<Rightarrow> string \<Rightarrow> 'c connect_io \<Rightarrow> 'c store \<Rightarrow> exn option \<times> 'c store" where
  "connect hostname user password io s =
     (case connect_admit hostname user password s of
        (Some e, s') \<Rightarrow> (Some e, s')
      | (None, s') \<Rightarrow> connect_resume hostname io s')"

text \<open>
  \<open>disconnect_admit\<close> runs to the \<^verbatim>\<open>await\<close> of the teardown when \<open>doDisconnect\<close>
  holds, and to the same place without it: the action then goes on at once.
  \<open>teardown\<close> is the error \<^verbatim>\<open>dispatch('machines/<hostname>/disconnect')\<close> rejects
  with, if any.
\<close>

definition disconnect_admit :: "hostname \<Rightarrow> bool \<Rightarrow> 'c store \<Rightarrow> exn option \<times> 'c store" where
  "disconnect_admit hostname doDisconnect s =
     (if hostname = ''default'' then
        (Some (new_Error (Str ''Invalid hostname (default is reserved)'')), s)
      else if modules s hostname = None then
        (Some (new_Error (Str (''Host '' @ hostname @ '' is already disconnected!''))), s)
      else if doDisconnect then
        (None, call (Dispatch_disconnect hostname) (commit (SetDisconnecting True) s))
      else (None, s))"

definition disconnect_resume ::
  "hostname \<Rightarrow> bool \<Rightarrow> exn option \<Rightarrow> 'c store \<Rightarrow> exn option \<times> 'c store" where
  "disconnect_resume hostname doDisconnect teardown s =
     (let s1 = (if doDisconnect then
                  commit (SetDisconnecting False)
                    (case teardown of
                       None \<Rightarrow>
                         call (Logger_logGlobal LSuccess
                                 (I18n_t ''notification.disconnected'' [hostname]) None) s
                     | Some e \<Rightarrow>
                         call (Console_warn e)
                           (call (Logger_logGlobal LWarning
                                    (I18n_t ''error.disconnectError'' [hostname])
                                    (Some (message e))) s))
                else s);
          s2 = commit (Machine_unregister hostname) s1;
          s3 = (if selectedMachine s2 = hostname
                then commit (SetSelectedMachine ''default'') s2 else s2)
      in (None, commit (RemoveMachine hostname) s3))"

definition disconnect ::
  "(hostname \<times> bool option) option \<Rightarrow> exn option \<Rightarrow> 'c store \<Rightarrow> exn option \<times> 'c store" where
  "disconnect p teardown s =
     (case disconnect_payload p s of (hostname, doDisconnect) \<Rightarrow>
        (case disconnect_admit hostname doDisconnect s of
           (Some e, s') \<Rightarrow> (Some e, s')
         | (None, s') \<Rightarrow> disconnect_resume hostname doDisconnect teardown s'))"

text \<open>
  \<open>sendCode\<close> reads the selected machine before it dispatches; \<open>sendCode_resume\<close> has
  that hostname and the settled dispatch: an error, or the response.
\<close>

definition sendCode_resume ::
  "hostname \<Rightarrow> string \<Rightarrow> exn + string \<Rightarrow> 'c store \<Rightarrow> exn option \<times> 'c store" where
  "sendCode_resume hostname code r s =
     (case r of
        Inr response \<Rightarrow> (None, call (Logger_logCode code response hostname) s)
      | Inl e \<Rightarrow>
          (Some e,
           if \<not> instanceof e DisconnectedError
           then call (Log (if instanceof e CodeBufferError then LWarning else LError) (message e)) s
           else s))"

definition sendCode :: "string \<Rightarrow> exn + string \<Rightarrow> 'c store \<Rightarrow> exn option \<times> 'c store" where
  "sendCode code r s =
     (let hostname = selectedMachine s
      in sendCode_resume hostname code r (call (Dispatch_sendCode hostname code) s))"

subsection \<open>Interleaving\<close>

text \<open>
  The actions run on one thread and give way only at their \<^verbatim>\<open>await\<close>. The system is
  the store with the actions that wait there. An event is a call of an action, which runs
  its first part, or the settling of a waiting action, which runs its second part. A
  disconnect without teardown has no \<^verbatim>\<open>await\<close> and runs whole at its call.
\<close>

datatype task = ConnectTask hostname | DisconnectTask hostname | SendCodeTask hostname string

record 'c system =
  st :: "'c store"
  pending :: "task list"

datatype 'c event =
    Call_connect hostname string string
  | Settle_connect hostname "'c connect_io"
  | Call_disconnect "(hostname \<times> bool option) option"
  | Settle_disconnect hostname "exn option"
  | Call_sendCode string
  | Settle_sendCode hostname string "exn + string"

fun exec :: "'c event \<Rightarrow> 'c system \<Rightarrow> 'c system" where
  "exec (Call_connect hostname user password) sys =
     (case connect_admit hostname user password (st sys) of
        (Some e, s') \<Rightarrow> sys\<lparr>st := s'\<rparr>
      | (None, s') \<Rightarrow> \<lparr>st = s', pending = pending sys @ [ConnectTask hostname]\<rparr>)"
| "exec (Settle_connect hostname io) sys =
     (if ConnectTask hostname \<in> set (pending sys)
      then \<lparr>st = snd (connect_resume hostname io (st sys)),
            pending = remove1 (ConnectTask hostname) (pending sys)\<rparr>
      else sys)"
| "exec (Call_disconnect p) sys =
     (case disconnect_payload p (st sys) of (hostname, doDisconnect) \<Rightarrow>
        (case disconnect_admit hostname doDisconnect (st sys) of
           (Some e, s') \<Rightarrow> sys\<lparr>st := s'\<rparr>
         | (None, s') \<Rightarrow>
             if doDisconnect then \<lparr>st = s', pending = pending sys @ [DisconnectTask hostname]\<rparr>
             else sys\<lparr>st := snd (disconnect_resume hostname False None s')\<rparr>))"
| "exec (Settle_disconnect hostname teardown) sys =
     (if DisconnectTask hostname \<in> set (pending sys)
      then \<lparr>st = snd (disconnect_resume hostname True teardown (st sys)),
            pending = remove1 (DisconnectTask hostname) (pending sys)\<rparr>
      else sys)"
| "exec (Call_sendCode code) sys =
     \<lparr>st = call (Dispatch_sendCode (selectedMachine (st sys)) code) (st sys),
      pending = pending sys @ [SendCodeTask (selectedMachine (st sys)) code]\<rparr>"
| "exec (Settle_sendCode hostname code r) sys =
     (if SendCodeTask hostname code \<in> set (pending sys)
      then \<lparr>st = snd (sendCode_resume hostname code r (st sys)),
            pending = remove1 (SendCodeTask hostname code) (pending sys)\<rparr>
      else sys)"

definition run :: "'c event list \<Rightarrow> 'c system" where
  "run evs = fold exec evs \<lparr>st = initial, pending = []\<rparr>"

fun is_connect :: "task \<Rightarrow> bool" where
  "is_connect (ConnectTask h) = True"
| "is_connect t = False"

fun is_disconnect :: "task \<Rightarrow> bool" where
  "is_disconnect (DisconnectTask h) = True"
| "is_disconnect t = False"

subsection \<open>Invariants\<close>

text \<open>
  \<open>selection_ok\<close>: the default session and the selected session are in the registry,
  the object \<^verbatim>\<open>machines\<close> agrees with the registered modules, and the module mounted
  at \<^verbatim>\<open>'machine'\<close> is the registry's module of the selected endpoint.

  \<open>system_ok\<close> adds what holds of the waiting actions: a waiting connect is for an
  endpoint other than \<open>default\<close> that is not registered, a waiting disconnect is for an
  endpoint other than \<open>default\<close>, \<open>isConnecting\<close> holds exactly while a connect waits,
  and at most one connect waits.
\<close>

definition selection_ok :: "'c store \<Rightarrow> bool" where
  "selection_ok s =
     (modules s ''default'' \<noteq> None \<and> modules s (selectedMachine s) \<noteq> None
      \<and> machines s = modules s \<and> machine s = modules s (selectedMachine s))"

definition system_ok :: "'c system \<Rightarrow> bool" where
  "system_ok sys =
     (selection_ok (st sys)
      \<and> (\<forall>h. ConnectTask h \<in> set (pending sys) \<longrightarrow> h \<noteq> ''default'' \<and> modules (st sys) h = None)
      \<and> (\<forall>h. DisconnectTask h \<in> set (pending sys) \<longrightarrow> h \<noteq> ''default'')
      \<and> (isConnecting (st sys) = (\<exists>h. ConnectTask h \<in> set (pending sys)))
      \<and> length (filter is_connect (pending sys)) \<le> 1)"

section \<open>Properties of the board table\<close>

lemma boardDefinitions_default: "boardDefinitions defaultBoardName = Some duetwifi10"
  by (simp add: boardDefinitions_def defaultBoardName_def)

text \<open>
  Claim C10. \<open>getBoardDefinition\<close> returns a value for every board type and that value
  is never \<^verbatim>\<open>undefined\<close>: for a valid board type it is the entry stored under that
  type, for any other it is the entry of the default board \<open>duetwifi10\<close>; so the
  definition returned for \<open>defaultBoardName\<close> is \<open>defaultBoard\<close>.
\<close>

theorem getBoardDefinition_total:
  "fst (getBoardDefinition boardType) \<noteq> None
   \<and> (isBoardValid boardType \<longrightarrow> fst (getBoardDefinition boardType) = boardDefinitions boardType)
   \<and> (\<not> isBoardValid boardType \<longrightarrow>
        fst (getBoardDefinition boardType) = boardDefinitions ''duetwifi10'')
   \<and> fst (getBoardDefinition defaultBoardName) = defaultBoard
   \<and> defaultBoard = Some duetwifi10"
  using boardDefinitions_default
  by (simp add: getBoardDefinition_def isBoardValid_def defaultBoard_def defaultBoardName_def)

theorem getBoardDefinition_total_witness:
  "isBoardValid ''duetm10'' \<and> fst (getBoardDefinition ''duetm10'') = Some duetm10
   \<and> \<not> isBoardValid ''duet3'' \<and> fst (getBoardDefinition ''duet3'') = Some duetwifi10"
  using getBoardDefinition_total [of "''duetm10''"] getBoardDefinition_total [of "''duet3''"]
  by (simp add: isBoardValid_def boardDefinitions_def)

section \<open>Basic facts about commits, calls and the invariants\<close>

lemma ui_addMachine_fields [simp]:
  "isConnecting (ui_addMachine h s) = isConnecting s"
  "isDisconnecting (ui_addMachine h s) = isDisconnecting s"
  "selectedMachine (ui_addMachine h s) = selectedMachine s"
  "modules (ui_addMachine h s) = modules s"
  "machines (ui_addMachine h s) = machines s"
  "machine (ui_addMachine h s) = machine s"
  "ui_machines (ui_addMachine h s) = insert h (ui_machines s)"
  "history (ui_addMachine h s) = history s"
  by (simp_all add: ui_addMachine_def)

lemma machine_unregister_id [simp]: "machine_unregister h s = s"
  by (simp add: machine_unregister_def)

lemma call_fields [simp]:
  "isConnecting (call c s) = isConnecting s"
  "isDisconnecting (call c s) = isDisconnecting s"
  "selectedMachine (call c s) = selectedMachine s"
  "modules (call c s) = modules s"
  "machines (call c s) = machines s"
  "machine (call c s) = machine s"
  "ui_machines (call c s) = ui_machines s"
  "history (call c s) = history s @ [Call c]"
  by (simp_all add: call_def)

lemma commit_history [simp]: "history (commit m s) = history s @ [Commit m]"
  by (simp add: commit_def)

lemma commit_fields [simp]:
  "isConnecting (commit m s) = isConnecting (mutate m s)"
  "isDisconnecting (commit m s) = isDisconnecting (mutate m s)"
  "selectedMachine (commit m s) = selectedMachine (mutate m s)"
  "modules (commit m s) = modules (mutate m s)"
  "machines (commit m s) = machines (mutate m s)"
  "machine (commit m s) = machine (mutate m s)"
  "ui_machines (commit m s) = ui_machines (mutate m s)"
  by (simp_all add: commit_def)

lemma selection_ok_call [simp]: "selection_ok (call c s) = selection_ok s"
  by (simp add: selection_ok_def)

lemma connect_admit_store:
  "snd (connect_admit h u p s) = s \<or>
   (fst (connect_admit h u p s) = None \<and> h \<noteq> ''default'' \<and> modules s h = None \<and> \<not> isConnecting s
    \<and> snd (connect_admit h u p s) = call (Connector_connect h u p) (commit (SetConnecting True) s))"
  by (simp add: connect_admit_def)

lemma selection_ok_connect_admit:
  "selection_ok s \<Longrightarrow> selection_ok (snd (connect_admit h u p s))"
  by (simp add: connect_admit_def selection_ok_def)

lemma selection_ok_connect_resume:
  "selection_ok s \<Longrightarrow> modules s h = None \<Longrightarrow> selection_ok (snd (connect_resume h io s))"
  by (auto simp: connect_resume_def connect_try_def selection_ok_def Let_def
      split: sum.splits option.splits)

lemma modules_connect_resume_other:
  "h' \<noteq> h \<Longrightarrow> modules (snd (connect_resume h io s)) h' = modules s h'"
  by (auto simp: connect_resume_def connect_try_def Let_def split: sum.splits option.splits)

lemma isConnecting_connect_resume: "\<not> isConnecting (snd (connect_resume h io s))"
  by (simp add: connect_resume_def Let_def split: prod.splits)

lemma selection_ok_disconnect_admit:
  "selection_ok s \<Longrightarrow> selection_ok (snd (disconnect_admit h d s))"
  by (simp add: disconnect_admit_def selection_ok_def)

lemma selection_ok_disconnect_resume:
  "selection_ok s \<Longrightarrow> h \<noteq> ''default'' \<Longrightarrow> selection_ok (snd (disconnect_resume h d t s))"
  by (auto simp: disconnect_resume_def selection_ok_def Let_def split: option.splits)

lemma selection_ok_sendCode_resume:
  "selection_ok s \<Longrightarrow> selection_ok (snd (sendCode_resume h code r s))"
  by (simp add: sendCode_resume_def split: sum.splits)


lemma filter_is_connect_empty:
  "(filter is_connect xs = []) = (\<forall>h. ConnectTask h \<notin> set xs)"
proof (induction xs)
  case Nil
  then show ?case by simp
next
  case (Cons x xs)
  then show ?case by (cases x) auto
qed

lemma single_connect_removed:
  "length (filter is_connect xs) \<le> 1 \<Longrightarrow> ConnectTask h \<in> set xs
   \<Longrightarrow> ConnectTask h' \<notin> set (remove1 (ConnectTask h) xs)"
proof (induction xs)
  case Nil
  then show ?case by simp
next
  case (Cons x xs)
  show ?case
  proof (cases x)
    case (ConnectTask g)
    with Cons.prems have "filter is_connect xs = []" by simp
    then have none: "\<forall>k. ConnectTask k \<notin> set xs" by (simp add: filter_is_connect_empty)
    with Cons.prems ConnectTask have "g = h" by auto
    with ConnectTask none show ?thesis by simp
  next
    case (DisconnectTask g)
    with Cons show ?thesis by auto
  next
    case (SendCodeTask g c)
    with Cons show ?thesis by auto
  qed
qed

lemma length_filter_remove1:
  "length (filter P (remove1 x xs)) \<le> length (filter P xs)"
  by (induction xs) auto

lemma system_ok_Call_connect:
  assumes "system_ok sys"
  shows "system_ok (exec (Call_connect h u p) sys)"
proof (cases "fst (connect_admit h u p (st sys))")
  case None
  then have adm: "h \<noteq> ''default''" "modules (st sys) h = None" "\<not> isConnecting (st sys)"
    and res: "connect_admit h u p (st sys)
              = (None, call (Connector_connect h u p) (commit (SetConnecting True) (st sys)))"
    by (auto simp: connect_admit_def split: if_splits)
  from assms adm have "filter is_connect (pending sys) = []"
    by (simp add: system_ok_def filter_is_connect_empty)
  with assms adm res show ?thesis
    by (auto simp: system_ok_def selection_ok_def)
next
  case (Some e)
  then have "connect_admit h u p (st sys) = (Some e, st sys)"
    by (auto simp: connect_admit_def split: if_splits)
  with assms show ?thesis by (simp add: system_ok_def)
qed

lemma system_ok_Settle_connect:
  assumes "system_ok sys"
  shows "system_ok (exec (Settle_connect h io) sys)"
proof (cases "ConnectTask h \<in> set (pending sys)")
  case False
  with assms show ?thesis by simp
next
  case True
  with assms have h: "h \<noteq> ''default''" "modules (st sys) h = None"
    and one: "length (filter is_connect (pending sys)) \<le> 1"
    and sel: "selection_ok (st sys)"
    and dis: "\<forall>g. DisconnectTask g \<in> set (pending sys) \<longrightarrow> g \<noteq> ''default''"
    by (auto simp: system_ok_def)
  from one True have none: "\<forall>g. ConnectTask g \<notin> set (remove1 (ConnectTask h) (pending sys))"
    using single_connect_removed by blast
  from sel h(2) have "selection_ok (snd (connect_resume h io (st sys)))"
    by (rule selection_ok_connect_resume)
  moreover have "\<forall>g. DisconnectTask g \<in> set (remove1 (ConnectTask h) (pending sys)) \<longrightarrow> g \<noteq> ''default''"
    using dis by (auto dest: notin_set_remove1)
  moreover have "length (filter is_connect (remove1 (ConnectTask h) (pending sys))) \<le> 1"
    using one length_filter_remove1 [of is_connect "ConnectTask h" "pending sys"] by simp
  ultimately show ?thesis
    using True none by (simp add: system_ok_def isConnecting_connect_resume)
qed

lemma modules_disconnect_resume:
  "modules (snd (disconnect_resume h d t s)) = (modules s)(h := None)"
  by (simp add: disconnect_resume_def Let_def split: option.splits)

lemma isConnecting_disconnect_resume:
  "isConnecting (snd (disconnect_resume h d t s)) = isConnecting s"
  by (simp add: disconnect_resume_def Let_def split: option.splits)

lemma system_ok_Call_disconnect:
  assumes "system_ok sys"
  shows "system_ok (exec (Call_disconnect p) sys)"
proof -
  obtain h d where pl: "disconnect_payload p (st sys) = (h, d)" by (cases "disconnect_payload p (st sys)")
  show ?thesis
  proof (cases "fst (disconnect_admit h d (st sys))")
    case (Some e)
    then have "disconnect_admit h d (st sys) = (Some e, st sys)"
      by (auto simp: disconnect_admit_def split: if_splits)
    with assms pl show ?thesis by (simp add: system_ok_def)
  next
    case None
    then have h: "h \<noteq> ''default''" by (auto simp: disconnect_admit_def split: if_splits)
    show ?thesis
    proof (cases d)
      case True
      with None have "disconnect_admit h d (st sys)
          = (None, call (Dispatch_disconnect h) (commit (SetDisconnecting True) (st sys)))"
        by (auto simp: disconnect_admit_def split: if_splits)
      with assms pl True h show ?thesis
        by (auto simp: system_ok_def selection_ok_def)
    next
      case False
      with None have adm: "disconnect_admit h d (st sys) = (None, st sys)"
        by (auto simp: disconnect_admit_def split: if_splits)
      from assms h have "selection_ok (snd (disconnect_resume h False None (st sys)))"
        by (simp add: system_ok_def selection_ok_disconnect_resume)
      with assms pl False adm show ?thesis
        by (simp add: system_ok_def modules_disconnect_resume isConnecting_disconnect_resume)
    qed
  qed
qed

lemma system_ok_Settle_disconnect:
  assumes "system_ok sys"
  shows "system_ok (exec (Settle_disconnect h t) sys)"
proof (cases "DisconnectTask h \<in> set (pending sys)")
  case False
  with assms show ?thesis by simp
next
  case True
  with assms have h: "h \<noteq> ''default''" by (simp add: system_ok_def)
  with assms have "selection_ok (snd (disconnect_resume h True t (st sys)))"
    by (simp add: system_ok_def selection_ok_disconnect_resume)
  moreover have "length (filter is_connect (remove1 (DisconnectTask h) (pending sys))) \<le> 1"
    using assms length_filter_remove1 [of is_connect "DisconnectTask h" "pending sys"]
    by (simp add: system_ok_def)
  moreover have "\<forall>g. DisconnectTask g \<in> set (remove1 (DisconnectTask h) (pending sys)) \<longrightarrow> g \<noteq> ''default''"
    using assms by (auto simp: system_ok_def dest: notin_set_remove1)
  ultimately show ?thesis
    using assms True
    by (simp add: system_ok_def modules_disconnect_resume isConnecting_disconnect_resume)
qed

lemma system_ok_Call_sendCode:
  "system_ok sys \<Longrightarrow> system_ok (exec (Call_sendCode code) sys)"
  by (auto simp: system_ok_def selection_ok_def)

lemma unchanged_sendCode_resume:
  "modules (snd (sendCode_resume h code r s)) = modules s"
  "isConnecting (snd (sendCode_resume h code r s)) = isConnecting s"
  by (simp_all add: sendCode_resume_def split: sum.splits)

lemma system_ok_Settle_sendCode:
  assumes "system_ok sys"
  shows "system_ok (exec (Settle_sendCode h code r) sys)"
proof (cases "SendCodeTask h code \<in> set (pending sys)")
  case False
  with assms show ?thesis by simp
next
  case True
  have "length (filter is_connect (remove1 (SendCodeTask h code) (pending sys))) \<le> 1"
    using assms length_filter_remove1 [of is_connect "SendCodeTask h code" "pending sys"]
    by (simp add: system_ok_def)
  moreover have "\<forall>g. DisconnectTask g \<in> set (remove1 (SendCodeTask h code) (pending sys)) \<longrightarrow> g \<noteq> ''default''"
    using assms by (auto simp: system_ok_def dest: notin_set_remove1)
  ultimately show ?thesis
    using assms True
    by (simp add: system_ok_def unchanged_sendCode_resume selection_ok_sendCode_resume)
qed

lemma system_ok_exec: "system_ok sys \<Longrightarrow> system_ok (exec ev sys)"
  by (cases ev)
    (simp_all only: system_ok_Call_connect system_ok_Settle_connect system_ok_Call_disconnect
      system_ok_Settle_disconnect system_ok_Call_sendCode system_ok_Settle_sendCode)

lemma system_ok_fold: "system_ok sys \<Longrightarrow> system_ok (fold exec evs sys)"
  by (induction evs arbitrary: sys) (simp_all add: system_ok_exec)

lemma system_ok_initial: "system_ok \<lparr>st = initial, pending = []\<rparr>"
  by (simp add: system_ok_def selection_ok_def initial_def)

lemma system_ok_run: "system_ok (run evs)"
  unfolding run_def by (rule system_ok_fold [OF system_ok_initial])

section \<open>Connect\<close>

text \<open>
  Claim C1. For every endpoint other than \<open>default\<close> that is not registered, a connect
  that is admitted (no connect is waiting) and whose handshake and setup succeed resolves,
  and afterwards the session is in the registry under the endpoint, the endpoint is
  registered with the UI collaborator, the endpoint is the selected one, and a success
  notification has been emitted. The history lists the whole sequence.
\<close>

theorem connect_success:
  assumes "hostname \<noteq> ''default''" and "modules s hostname = None" and "\<not> isConnecting s"
    and "handshake io = Inr c" and "machine_throws io = None" and "register_throws io = None"
  shows "\<exists>s'. connect hostname user password io s = (None, s')
     \<and> modules s' hostname = Some (Machine (Some c))
     \<and> machines s' hostname = Some (Machine (Some c))
     \<and> hostname \<in> ui_machines s'
     \<and> selectedMachine s' = hostname
     \<and> machine s' = Some (Machine (Some c))
     \<and> history s' = history s @
         [Commit (SetConnecting True), Call (Connector_connect hostname user password),
          Commit (AddMachine hostname (Machine (Some c))), Commit (Ui_addMachine hostname),
          Call (ConnectorInstance_register c (Machine (Some c))),
          Commit (SetSelectedMachine hostname),
          Call (Logger_logGlobal LSuccess (I18n_t ''notification.connected'' [hostname]) None),
          Commit (SetConnecting False)]"
  using assms
  by (simp add: connect_def connect_admit_def connect_resume_def connect_try_def Let_def)

theorem connect_success_witness:
  "''10.0.0.5'' \<noteq> ''default'' \<and> modules (initial :: nat store) ''10.0.0.5'' = None
   \<and> \<not> isConnecting (initial :: nat store)
   \<and> (\<exists>s'. connect ''10.0.0.5'' [] ''reprap''
              \<lparr>handshake = Inr (1::nat), machine_throws = None, register_throws = None\<rparr> initial
            = (None, s')
        \<and> modules s' ''10.0.0.5'' = Some (Machine (Some 1))
        \<and> ''10.0.0.5'' \<in> ui_machines s'
        \<and> selectedMachine s' = ''10.0.0.5''
        \<and> history s' =
           [Commit (SetConnecting True), Call (Connector_connect ''10.0.0.5'' [] ''reprap''),
            Commit (AddMachine ''10.0.0.5'' (Machine (Some 1))), Commit (Ui_addMachine ''10.0.0.5''),
            Call (ConnectorInstance_register 1 (Machine (Some 1))),
            Commit (SetSelectedMachine ''10.0.0.5''),
            Call (Logger_logGlobal LSuccess (I18n_t ''notification.connected'' [''10.0.0.5'']) None),
            Commit (SetConnecting False)])"
proof -
  have a: "''10.0.0.5'' \<noteq> ''default''" by simp
  have b: "modules (initial :: nat store) ''10.0.0.5'' = None" by (simp add: initial_def)
  have c: "\<not> isConnecting (initial :: nat store)" by (simp add: initial_def)
  have h: "history (initial :: nat store) = []" by (simp add: initial_def)
  show ?thesis
    using a b c h
      connect_success [OF a b c, of "\<lparr>handshake = Inr (1::nat), machine_throws = None, register_throws = None\<rparr>" 1 "[]" "''reprap''"]
    by auto
qed

text \<open>
  Claim C2. Connect checks three preconditions in this order, each with an error of its
  own, and rejects with the store exactly as it was (so with no commit and no collaborator
  call): the reserved endpoint \<open>default\<close>; an endpoint already in the registry; a connect
  already waiting (\<open>isConnecting\<close>). When none applies the connect is admitted. The three
  errors are instances of \<^verbatim>\<open>Error\<close> told apart by their messages.
\<close>

theorem connect_preconditions:
  "(hostname = ''default'' \<longrightarrow>
      connect hostname user password io s
      = (Some (new_Error (Str ''Invalid hostname (default is reserved)'')), s))
   \<and> (hostname \<noteq> ''default'' \<and> modules s hostname \<noteq> None \<longrightarrow>
      connect hostname user password io s
      = (Some (new_Error (Str (''Host '' @ hostname @ '' is already connected!''))), s))
   \<and> (hostname \<noteq> ''default'' \<and> modules s hostname = None \<and> isConnecting s \<longrightarrow>
      connect hostname user password io s = (Some (new_Error (Str ''Already connecting'')), s))
   \<and> (hostname \<noteq> ''default'' \<and> modules s hostname = None \<and> \<not> isConnecting s \<longrightarrow>
      fst (connect hostname user password io s) = None)
   \<and> new_Error (Str ''Invalid hostname (default is reserved)'')
       \<noteq> new_Error (Str (''Host '' @ h @ '' is already connected!''))
   \<and> new_Error (Str ''Invalid hostname (default is reserved)'') \<noteq> new_Error (Str ''Already connecting'')
   \<and> new_Error (Str (''Host '' @ h @ '' is already connected!'')) \<noteq> new_Error (Str ''Already connecting'')"
  by (simp add: connect_def connect_admit_def connect_resume_def new_Error_def Let_def)

theorem connect_preconditions_witness:
  "connect ''default'' [] ''reprap'' \<lparr>handshake = Inr (1::nat), machine_throws = None, register_throws = None\<rparr> initial
     = (Some (new_Error (Str ''Invalid hostname (default is reserved)'')), initial)
   \<and> modules (initial\<lparr>modules := [''default'' \<mapsto> Machine None, ''10.0.0.5'' \<mapsto> Machine (Some (1::nat))]\<rparr>) ''10.0.0.5'' \<noteq> None
   \<and> connect ''10.0.0.5'' [] ''reprap'' \<lparr>handshake = Inr (1::nat), machine_throws = None, register_throws = None\<rparr>
        (initial\<lparr>modules := [''default'' \<mapsto> Machine None, ''10.0.0.5'' \<mapsto> Machine (Some 1)]\<rparr>)
     = (Some (new_Error (Str ''Host 10.0.0.5 is already connected!'')),
        initial\<lparr>modules := [''default'' \<mapsto> Machine None, ''10.0.0.5'' \<mapsto> Machine (Some 1)]\<rparr>)
   \<and> isConnecting (snd (connect_admit ''10.0.0.5'' [] ''reprap'' (initial :: nat store)))
   \<and> connect ''10.0.0.6'' [] ''reprap'' \<lparr>handshake = Inr (1::nat), machine_throws = None, register_throws = None\<rparr>
        (snd (connect_admit ''10.0.0.5'' [] ''reprap'' initial))
     = (Some (new_Error (Str ''Already connecting'')), snd (connect_admit ''10.0.0.5'' [] ''reprap'' initial))
   \<and> fst (connect ''10.0.0.5'' [] ''reprap'' \<lparr>handshake = Inr (1::nat), machine_throws = None, register_throws = None\<rparr> initial) = None"
proof -
  let ?io = "\<lparr>handshake = Inr (1::nat), machine_throws = None, register_throws = None\<rparr>"
  let ?s1 = "(initial :: nat store)\<lparr>modules := [''default'' \<mapsto> Machine None, ''10.0.0.5'' \<mapsto> Machine (Some 1)]\<rparr>"
  let ?s2 = "snd (connect_admit ''10.0.0.5'' [] ''reprap'' (initial :: nat store))"
  have s1: "modules ?s1 ''10.0.0.5'' \<noteq> None" by simp
  have s2: "modules ?s2 ''10.0.0.6'' = None" "isConnecting ?s2"
    by (simp_all add: connect_admit_def initial_def)
  have i: "modules (initial :: nat store) ''10.0.0.5'' = None" "\<not> isConnecting (initial :: nat store)"
    by (simp_all add: initial_def)
  show ?thesis
    using s1 s2 i
      connect_preconditions [of "''default''" "[]" "''reprap''" ?io initial]
      connect_preconditions [of "''10.0.0.5''" "[]" "''reprap''" ?io ?s1]
      connect_preconditions [of "''10.0.0.6''" "[]" "''reprap''" ?io ?s2]
      connect_preconditions [of "''10.0.0.5''" "[]" "''reprap''" ?io initial]
    by simp
qed

text \<open>
  Claim C3. After an admitted connect has run to its end, \<open>isConnecting\<close> is false,
  whatever the handshake, the module factory and the registration answered, and whatever
  the store was when the handshake settled.
\<close>

theorem connect_releases_gate:
  "\<not> isConnecting (snd (connect_resume hostname io s'))
   \<and> (fst (connect_admit hostname user password s) = None \<longrightarrow>
        fst (connect hostname user password io s) = None
        \<and> \<not> isConnecting (snd (connect hostname user password io s)))
   \<and> (ConnectTask hostname \<in> set (pending sys) \<longrightarrow>
        \<not> isConnecting (st (exec (Settle_connect hostname io) sys)))"
proof -
  have r: "\<And>x. \<not> isConnecting (snd (connect_resume hostname io x))"
    by (rule isConnecting_connect_resume)
  have f: "\<And>x. fst (connect_resume hostname io x) = None"
    by (simp add: connect_resume_def Let_def)
  show ?thesis
    using r f by (auto simp: connect_def split: prod.splits option.splits)
qed

theorem connect_releases_gate_witness:
  "fst (connect_admit ''10.0.0.5'' [] ''reprap'' (initial :: nat store)) = None
   \<and> \<not> isConnecting (snd (connect ''10.0.0.5'' [] ''reprap''
         \<lparr>handshake = Inl new_TimeoutError, machine_throws = None, register_throws = None\<rparr>
         (initial :: nat store)))
   \<and> ConnectTask ''10.0.0.5'' \<in> set (pending (run [Call_connect ''10.0.0.5'' [] ''reprap'' :: nat event]))
   \<and> \<not> isConnecting (st (exec (Settle_connect ''10.0.0.5''
         \<lparr>handshake = Inr 1, machine_throws = None, register_throws = None\<rparr>)
         (run [Call_connect ''10.0.0.5'' [] ''reprap'' :: nat event])))"
proof -
  have a: "fst (connect_admit ''10.0.0.5'' [] ''reprap'' (initial :: nat store)) = None"
    by (simp add: connect_admit_def initial_def)
  have b: "ConnectTask ''10.0.0.5'' \<in> set (pending (run [Call_connect ''10.0.0.5'' [] ''reprap'' :: nat event]))"
    by (simp add: run_def connect_admit_def initial_def)
  have c: "\<not> isConnecting (snd (connect ''10.0.0.5'' [] ''reprap''
         \<lparr>handshake = Inl new_TimeoutError, machine_throws = None, register_throws = None\<rparr>
         (initial :: nat store)))"
    using a
      connect_releases_gate [of "''10.0.0.5''"
        "\<lparr>handshake = Inl new_TimeoutError, machine_throws = None, register_throws = None\<rparr>"
        initial "[]" "''reprap''" initial "run []"]
    by blast
  have d: "\<not> isConnecting (st (exec (Settle_connect ''10.0.0.5''
         \<lparr>handshake = Inr 1, machine_throws = None, register_throws = None\<rparr>)
         (run [Call_connect ''10.0.0.5'' [] ''reprap'' :: nat event])))"
    using b
      connect_releases_gate [of "''10.0.0.5''"
        "\<lparr>handshake = Inr (1::nat), machine_throws = None, register_throws = None\<rparr>"
        initial "[]" "''reprap''" initial "run [Call_connect ''10.0.0.5'' [] ''reprap'']"]
    by blast
  from a b c d show ?thesis by blast
qed

text \<open>
  Claim C4, as the store has it. For every admitted connect whose handshake or setup fails,
  the failure is reported as an error-level notification carrying the endpoint and the
  message of the error, the action resolves (nothing is re-raised), the selected endpoint
  and the mounted module are as before and the gate is released. When the failure is in
  the handshake or in the construction of the module, which come before the session is
  inserted, the registry and the UI collaborator are as before too, and the history holds
  nothing but the gate, the handshake and the notification.
\<close>

theorem connect_failure:
  assumes admitted: "fst (connect_admit hostname user password s) = None"
    and failure: "handshake io = Inl e
       \<or> (handshake io = Inr c \<and> machine_throws io = Some e)
       \<or> (handshake io = Inr c \<and> machine_throws io = None \<and> register_throws io = Some e)"
  shows "\<exists>s'. connect hostname user password io s = (None, s')
     \<and> selectedMachine s' = selectedMachine s \<and> machine s' = machine s
     \<and> \<not> isConnecting s'
     \<and> (\<exists>setup. history s' = history s @
           [Commit (SetConnecting True), Call (Connector_connect hostname user password)] @ setup @
           [Call (Logger_logGlobal LError (I18n_t ''error.connectError'' [hostname]) (Some (message e))),
            Commit (SetConnecting False)])
     \<and> (handshake io = Inl e \<or> machine_throws io = Some e \<longrightarrow>
          modules s' = modules s \<and> machines s' = machines s \<and> ui_machines s' = ui_machines s
          \<and> history s' = history s @
             [Commit (SetConnecting True), Call (Connector_connect hostname user password),
              Call (Logger_logGlobal LError (I18n_t ''error.connectError'' [hostname]) (Some (message e))),
              Commit (SetConnecting False)])"
proof -
  from admitted have adm: "connect_admit hostname user password s
      = (None, call (Connector_connect hostname user password) (commit (SetConnecting True) s))"
    by (auto simp: connect_admit_def split: if_splits)
  from failure show ?thesis
    by (auto simp: connect_def adm connect_resume_def connect_try_def Let_def)
qed

theorem connect_failure_witness:
  "fst (connect_admit ''10.0.0.5'' [] ''reprap'' (initial :: nat store)) = None
   \<and> (\<exists>s'. connect ''10.0.0.5'' [] ''reprap''
         \<lparr>handshake = Inl new_InvalidPasswordError, machine_throws = None, register_throws = None\<rparr>
         (initial :: nat store) = (None, s')
        \<and> modules s' = modules (initial :: nat store)
        \<and> selectedMachine s' = ''default''
        \<and> history s' =
             [Commit (SetConnecting True), Call (Connector_connect ''10.0.0.5'' [] ''reprap''),
              Call (Logger_logGlobal LError (I18n_t ''error.connectError'' [''10.0.0.5''])
                      (Some (I18n_t ''error.invalidPassword'' []))),
              Commit (SetConnecting False)])"
proof -
  let ?io = "\<lparr>handshake = Inl new_InvalidPasswordError, machine_throws = None,
               register_throws = None\<rparr> :: nat connect_io"
  have a: "fst (connect_admit ''10.0.0.5'' [] ''reprap'' (initial :: nat store)) = None"
    by (simp add: connect_admit_def initial_def)
  have f: "handshake ?io = Inl new_InvalidPasswordError
       \<or> (handshake ?io = Inr 0 \<and> machine_throws ?io = Some new_InvalidPasswordError)
       \<or> (handshake ?io = Inr 0 \<and> machine_throws ?io = None
           \<and> register_throws ?io = Some new_InvalidPasswordError)"
    by simp
  have i: "selectedMachine (initial :: nat store) = ''default''" "history (initial :: nat store) = []"
    by (simp_all add: initial_def)
  have m: "message new_InvalidPasswordError = I18n_t ''error.invalidPassword'' []"
    by (simp add: new_InvalidPasswordError_def)
  from connect_failure [OF a f] i m a show ?thesis by auto
qed

text \<open>
  The registry is not always as it was: when \<^verbatim>\<open>connectorInstance.register\<close> throws, the
  commits \<open>AddMachine\<close> and \<open>Ui_addMachine\<close> have been made and nothing undoes them, so
  the session stays in the registry, unselected.
\<close>

theorem connect_partial_session_counterexample:
  "fst (connect_admit ''10.0.0.5'' [] ''reprap'' (initial :: nat store)) = None
   \<and> modules (initial :: nat store) ''10.0.0.5'' = None
   \<and> fst (connect ''10.0.0.5'' [] ''reprap''
        \<lparr>handshake = Inr (1::nat), machine_throws = None,
         register_throws = Some (new_OperationFailedError ''register'')\<rparr> initial) = None
   \<and> modules (snd (connect ''10.0.0.5'' [] ''reprap''
        \<lparr>handshake = Inr (1::nat), machine_throws = None,
         register_throws = Some (new_OperationFailedError ''register'')\<rparr> initial)) ''10.0.0.5''
      = Some (Machine (Some 1))
   \<and> selectedMachine (snd (connect ''10.0.0.5'' [] ''reprap''
        \<lparr>handshake = Inr (1::nat), machine_throws = None,
         register_throws = Some (new_OperationFailedError ''register'')\<rparr> initial)) = ''default''"
  by (simp add: connect_def connect_admit_def connect_resume_def connect_try_def initial_def Let_def)

section \<open>Disconnect\<close>

lemma disconnect_resume_history:
  "history (snd (disconnect_resume hostname doDisconnect teardown s)) = history s
     @ (if doDisconnect then
          (case teardown of
             None \<Rightarrow> [Call (Logger_logGlobal LSuccess
                               (I18n_t ''notification.disconnected'' [hostname]) None)]
           | Some e \<Rightarrow> [Call (Logger_logGlobal LWarning
                                (I18n_t ''error.disconnectError'' [hostname]) (Some (message e))),
                         Call (Console_warn e)])
          @ [Commit (SetDisconnecting False)]
        else [])
     @ [Commit (Machine_unregister hostname)]
     @ (if selectedMachine s = hostname then [Commit (SetSelectedMachine ''default'')] else [])
     @ [Commit (RemoveMachine hostname)]"
  by (simp add: disconnect_resume_def Let_def split: option.splits)

lemma disconnect_resume_fields:
  "fst (disconnect_resume hostname doDisconnect teardown s) = None"
  "machines (snd (disconnect_resume hostname doDisconnect teardown s)) = (machines s)(hostname := None)"
  "ui_machines (snd (disconnect_resume hostname doDisconnect teardown s)) = ui_machines s"
  "isDisconnecting (snd (disconnect_resume hostname doDisconnect teardown s))
     = (if doDisconnect then False else isDisconnecting s)"
  "selectedMachine (snd (disconnect_resume hostname doDisconnect teardown s))
     = (if selectedMachine s = hostname then ''default'' else selectedMachine s)"
  by (simp_all add: disconnect_resume_def Let_def split: option.splits)

lemmas action_defs = connect_admit_def connect_resume_def connect_try_def disconnect_payload_def
  disconnect_admit_def disconnect_resume_def sendCode_resume_def

text \<open>
  Claim C5, as the store has it. For every endpoint other than \<open>default\<close> in the
  registry, disconnect resolves whether the teardown succeeds or throws: a teardown error
  becomes a warning-level notification and removal goes on, the command routing is
  unregistered before the removal, the endpoint is absent from the registry afterwards, and
  \<open>isDisconnecting\<close> is false after a disconnect with teardown, while one without
  teardown leaves the flag as it found it. Disconnect makes no commit to the UI
  collaborator, whose set of endpoints stays as it was. For an endpoint other than
  \<open>default\<close> that is not in the registry, disconnect rejects with the error
  \<open>Host <hostname> is already disconnected!\<close> and the store is unchanged. The last three
  conjuncts are about the second part of the action on any store, as after an interleaving.
\<close>

theorem disconnect_completes:
  assumes "disconnect_payload p s = (hostname, doDisconnect)" and "hostname \<noteq> ''default''"
  shows "(modules s hostname \<noteq> None \<longrightarrow>
      (\<exists>s'. disconnect p teardown s = (None, s')
         \<and> modules s' hostname = None \<and> machines s' hostname = None
         \<and> ui_machines s' = ui_machines s
         \<and> isDisconnecting s' = (if doDisconnect then False else isDisconnecting s)
         \<and> history s' = history s
            @ (if doDisconnect then
                 [Commit (SetDisconnecting True), Call (Dispatch_disconnect hostname)]
                 @ (case teardown of
                      None \<Rightarrow> [Call (Logger_logGlobal LSuccess
                                        (I18n_t ''notification.disconnected'' [hostname]) None)]
                    | Some e \<Rightarrow> [Call (Logger_logGlobal LWarning
                                         (I18n_t ''error.disconnectError'' [hostname])
                                         (Some (message e))),
                                  Call (Console_warn e)])
                 @ [Commit (SetDisconnecting False)]
               else [])
            @ [Commit (Machine_unregister hostname)]
            @ (if selectedMachine s = hostname then [Commit (SetSelectedMachine ''default'')] else [])
            @ [Commit (RemoveMachine hostname)]))
   \<and> (modules s hostname = None \<longrightarrow>
        disconnect p teardown s
        = (Some (new_Error (Str (''Host '' @ hostname @ '' is already disconnected!''))), s))
   \<and> fst (disconnect_resume hostname doDisconnect teardown x) = None
   \<and> modules (snd (disconnect_resume hostname doDisconnect teardown x)) hostname = None
   \<and> (doDisconnect \<longrightarrow> \<not> isDisconnecting (snd (disconnect_resume hostname doDisconnect teardown x)))"
proof -
  let ?s1 = "if doDisconnect
             then call (Dispatch_disconnect hostname) (commit (SetDisconnecting True) s) else s"
  let ?s' = "snd (disconnect_resume hostname doDisconnect teardown ?s1)"
  have registered: "disconnect p teardown s = (None, ?s')" if "modules s hostname \<noteq> None"
  proof -
    from that assms have "disconnect p teardown s
        = disconnect_resume hostname doDisconnect teardown ?s1"
      by (auto simp: disconnect_def disconnect_admit_def)
    then show ?thesis
      using disconnect_resume_fields(1) [of hostname doDisconnect teardown ?s1]
      by (metis prod.collapse)
  qed
  have after: "modules ?s' hostname = None \<and> machines ?s' hostname = None
      \<and> ui_machines ?s' = ui_machines s
      \<and> isDisconnecting ?s' = (if doDisconnect then False else isDisconnecting s)"
    by (simp add: disconnect_resume_fields modules_disconnect_resume)
  have hist: "history ?s' = history s
            @ (if doDisconnect then
                 [Commit (SetDisconnecting True), Call (Dispatch_disconnect hostname)]
                 @ (case teardown of
                      None \<Rightarrow> [Call (Logger_logGlobal LSuccess
                                        (I18n_t ''notification.disconnected'' [hostname]) None)]
                    | Some e \<Rightarrow> [Call (Logger_logGlobal LWarning
                                         (I18n_t ''error.disconnectError'' [hostname])
                                         (Some (message e))),
                                  Call (Console_warn e)])
                 @ [Commit (SetDisconnecting False)]
               else [])
            @ [Commit (Machine_unregister hostname)]
            @ (if selectedMachine s = hostname then [Commit (SetSelectedMachine ''default'')] else [])
            @ [Commit (RemoveMachine hostname)]"
    by (simp add: disconnect_resume_history)
  have absent: "disconnect p teardown s
        = (Some (new_Error (Str (''Host '' @ hostname @ '' is already disconnected!''))), s)"
    if "modules s hostname = None"
    using that assms by (simp add: disconnect_def disconnect_admit_def)
  have resume: "fst (disconnect_resume hostname doDisconnect teardown x) = None
      \<and> modules (snd (disconnect_resume hostname doDisconnect teardown x)) hostname = None
      \<and> (doDisconnect \<longrightarrow> \<not> isDisconnecting (snd (disconnect_resume hostname doDisconnect teardown x)))"
    by (simp add: disconnect_resume_fields modules_disconnect_resume)
  from registered after hist absent resume show ?thesis by blast
qed

theorem disconnect_completes_witness:
  "disconnect_payload (Some (''10.0.0.5'', None))
      ((initial :: nat store)\<lparr>modules := [''default'' \<mapsto> Machine None, ''10.0.0.5'' \<mapsto> Machine (Some 1)],
          machines := [''default'' \<mapsto> Machine None, ''10.0.0.5'' \<mapsto> Machine (Some 1)]\<rparr>)
     = (''10.0.0.5'', True)
   \<and> ''10.0.0.5'' \<noteq> ''default''
   \<and> (\<exists>s'. disconnect (Some (''10.0.0.5'', None)) (Some new_TimeoutError)
         ((initial :: nat store)\<lparr>modules := [''default'' \<mapsto> Machine None, ''10.0.0.5'' \<mapsto> Machine (Some 1)],
          machines := [''default'' \<mapsto> Machine None, ''10.0.0.5'' \<mapsto> Machine (Some 1)]\<rparr>) = (None, s')
       \<and> modules s' ''10.0.0.5'' = None \<and> \<not> isDisconnecting s'
       \<and> history s' =
          [Commit (SetDisconnecting True), Call (Dispatch_disconnect ''10.0.0.5''),
           Call (Logger_logGlobal LWarning (I18n_t ''error.disconnectError'' [''10.0.0.5''])
                   (Some (I18n_t ''error.timeoutError'' []))),
           Call (Console_warn new_TimeoutError),
           Commit (SetDisconnecting False), Commit (Machine_unregister ''10.0.0.5''),
           Commit (RemoveMachine ''10.0.0.5'')])
   \<and> modules (initial :: nat store) ''10.0.0.6'' = None
   \<and> disconnect (Some (''10.0.0.6'', None)) None (initial :: nat store)
      = (Some (new_Error (Str ''Host 10.0.0.6 is already disconnected!'')), initial)"
proof -
  let ?s = "(initial :: nat store)\<lparr>modules := [''default'' \<mapsto> Machine None, ''10.0.0.5'' \<mapsto> Machine (Some 1)],
          machines := [''default'' \<mapsto> Machine None, ''10.0.0.5'' \<mapsto> Machine (Some 1)]\<rparr>"
  have p: "disconnect_payload (Some (''10.0.0.5'', None)) ?s = (''10.0.0.5'', True)"
    by (simp add: disconnect_payload_def)
  have q: "disconnect_payload (Some (''10.0.0.6'', None)) (initial :: nat store) = (''10.0.0.6'', True)"
    by (simp add: disconnect_payload_def)
  have n: "''10.0.0.5'' \<noteq> ''default''" "''10.0.0.6'' \<noteq> ''default''" by simp_all
  have r: "modules ?s ''10.0.0.5'' \<noteq> None" "modules (initial :: nat store) ''10.0.0.6'' = None"
    "selectedMachine ?s \<noteq> ''10.0.0.5''" "history ?s = []"
    "message new_TimeoutError = I18n_t ''error.timeoutError'' []"
    by (simp_all add: initial_def new_TimeoutError_def)
  from disconnect_completes [OF p n(1), where teardown = "Some new_TimeoutError" and x = initial] r
  have a: "\<exists>s'. disconnect (Some (''10.0.0.5'', None)) (Some new_TimeoutError) ?s = (None, s')
       \<and> modules s' ''10.0.0.5'' = None \<and> \<not> isDisconnecting s'
       \<and> history s' =
          [Commit (SetDisconnecting True), Call (Dispatch_disconnect ''10.0.0.5''),
           Call (Logger_logGlobal LWarning (I18n_t ''error.disconnectError'' [''10.0.0.5''])
                   (Some (I18n_t ''error.timeoutError'' []))),
           Call (Console_warn new_TimeoutError),
           Commit (SetDisconnecting False), Commit (Machine_unregister ''10.0.0.5''),
           Commit (RemoveMachine ''10.0.0.5'')]"
    by auto
  from disconnect_completes [OF q n(2), where teardown = None and x = initial] r(2)
  have b: "disconnect (Some (''10.0.0.6'', None)) None (initial :: nat store)
      = (Some (new_Error (Str (''Host '' @ ''10.0.0.6'' @ '' is already disconnected!''))), initial)"
    by blast
  then have b: "disconnect (Some (''10.0.0.6'', None)) None (initial :: nat store)
      = (Some (new_Error (Str ''Host 10.0.0.6 is already disconnected!'')), initial)"
    by simp
  from p n(1) a r(2) b show ?thesis by blast
qed

text \<open>
  The endpoint stays with the UI collaborator after its disconnect. And after the
  disconnect without teardown of \<open>b\<close>, made while the teardown of \<open>a\<close> is awaited,
  \<open>isDisconnecting\<close> is still true.
\<close>

theorem disconnect_keeps_ui_counterexample:
  "modules (snd (connect ''10.0.0.5'' [] ''reprap''
        \<lparr>handshake = Inr (1::nat), machine_throws = None, register_throws = None\<rparr> initial))
      ''10.0.0.5'' \<noteq> None
   \<and> fst (disconnect (Some (''10.0.0.5'', None)) None
        (snd (connect ''10.0.0.5'' [] ''reprap''
           \<lparr>handshake = Inr (1::nat), machine_throws = None, register_throws = None\<rparr> initial))) = None
   \<and> ''10.0.0.5'' \<in> ui_machines (snd (disconnect (Some (''10.0.0.5'', None)) None
        (snd (connect ''10.0.0.5'' [] ''reprap''
           \<lparr>handshake = Inr (1::nat), machine_throws = None, register_throws = None\<rparr> initial))))
   \<and> modules (st (run [Call_connect ''a'' [] ''reprap'',
          Settle_connect ''a'' \<lparr>handshake = Inr (1::nat), machine_throws = None, register_throws = None\<rparr>,
          Call_connect ''b'' [] ''reprap'',
          Settle_connect ''b'' \<lparr>handshake = Inr 2, machine_throws = None, register_throws = None\<rparr>,
          Call_disconnect (Some (''a'', None))])) ''b'' \<noteq> None
   \<and> modules (st (run [Call_connect ''a'' [] ''reprap'',
          Settle_connect ''a'' \<lparr>handshake = Inr (1::nat), machine_throws = None, register_throws = None\<rparr>,
          Call_connect ''b'' [] ''reprap'',
          Settle_connect ''b'' \<lparr>handshake = Inr 2, machine_throws = None, register_throws = None\<rparr>,
          Call_disconnect (Some (''a'', None)),
          Call_disconnect (Some (''b'', Some False))])) ''b'' = None
   \<and> isDisconnecting (st (run [Call_connect ''a'' [] ''reprap'',
          Settle_connect ''a'' \<lparr>handshake = Inr (1::nat), machine_throws = None, register_throws = None\<rparr>,
          Call_connect ''b'' [] ''reprap'',
          Settle_connect ''b'' \<lparr>handshake = Inr 2, machine_throws = None, register_throws = None\<rparr>,
          Call_disconnect (Some (''a'', None)),
          Call_disconnect (Some (''b'', Some False))]))"
  by (simp add: run_def connect_def disconnect_def action_defs initial_def Let_def)

section \<open>The selected endpoint\<close>

lemma selection_ok_connect:
  assumes "selection_ok s"
  shows "selection_ok (snd (connect hostname user password io s))"
proof (cases "fst (connect_admit hostname user password s)")
  case (Some e)
  then have "connect_admit hostname user password s = (Some e, s)"
    by (auto simp: connect_admit_def split: if_splits)
  with assms show ?thesis by (simp add: connect_def)
next
  case None
  then have free: "modules s hostname = None"
    and adm: "connect_admit hostname user password s
      = (None, call (Connector_connect hostname user password) (commit (SetConnecting True) s))"
    by (auto simp: connect_admit_def split: if_splits)
  let ?s1 = "call (Connector_connect hostname user password) (commit (SetConnecting True) s)"
  from assms have "selection_ok ?s1" by (simp add: selection_ok_def)
  moreover from free have "modules ?s1 hostname = None" by simp
  ultimately have "selection_ok (snd (connect_resume hostname io ?s1))"
    by (rule selection_ok_connect_resume)
  with adm show ?thesis by (simp add: connect_def)
qed

lemma selection_ok_disconnect:
  assumes "selection_ok s"
  shows "selection_ok (snd (disconnect p teardown s))"
proof -
  obtain h d where pl: "disconnect_payload p s = (h, d)" by (cases "disconnect_payload p s")
  show ?thesis
  proof (cases "fst (disconnect_admit h d s)")
    case (Some e)
    then have "disconnect_admit h d s = (Some e, s)"
      by (auto simp: disconnect_admit_def split: if_splits)
    with assms pl show ?thesis by (simp add: disconnect_def)
  next
    case None
    then have h: "h \<noteq> ''default''" by (auto simp: disconnect_admit_def split: if_splits)
    from None obtain s1 where adm: "disconnect_admit h d s = (None, s1)"
      by (cases "disconnect_admit h d s") auto
    from assms have "selection_ok (snd (disconnect_admit h d s))"
      by (rule selection_ok_disconnect_admit)
    with adm have "selection_ok s1" by simp
    then have "selection_ok (snd (disconnect_resume h d teardown s1))"
      using h by (rule selection_ok_disconnect_resume)
    with pl adm show ?thesis by (simp add: disconnect_def)
  qed
qed

lemma selection_ok_sendCode: "selection_ok s \<Longrightarrow> selection_ok (snd (sendCode code r s))"
  by (simp add: sendCode_def Let_def selection_ok_sendCode_resume)

text \<open>
  Claim C6, as the store has it. The selected endpoint always resolves to a session in the
  registry. This holds in every state the store reaches under any interleaving of calls
  and settled awaits (\<open>run evs\<close>), and each of connect, disconnect and sendCode, run
  from its call to its end, preserves it (\<open>selection_ok\<close> also says that the mounted
  module is that session). When the endpoint being disconnected is the selected one, the
  selection is reset to \<open>default\<close> before the removal: the store the removal is
  committed on has \<open>default\<close> selected and the endpoint still registered. So a
  disconnect of the selected endpoint that runs from its call to its end with nothing in
  between ends with \<open>default\<close> selected, whether or not the teardown threw. The action
  reads the selection again when the teardown has settled: on any store that then has the
  endpoint selected it ends with \<open>default\<close> selected, and on any store that then has
  another endpoint selected it leaves the selection as it is. Either way the selection is
  not the removed endpoint afterwards.
\<close>

theorem selection_resolves:
  "selection_ok (st (run evs))
   \<and> modules (st (run evs)) (selectedMachine (st (run evs))) \<noteq> None
   \<and> (selection_ok s \<longrightarrow>
        selection_ok (snd (connect hostname user password io s))
        \<and> selection_ok (snd (disconnect p teardown s))
        \<and> selection_ok (snd (sendCode code r s)))
   \<and> (selectedMachine s = h \<and> h \<noteq> ''default'' \<and> modules s h \<noteq> None
        \<and> disconnect_payload p s = (h, doDisconnect) \<longrightarrow>
        fst (disconnect p teardown s) = None
        \<and> selectedMachine (snd (disconnect p teardown s)) = ''default''
        \<and> (\<exists>s3. snd (disconnect p teardown s) = commit (RemoveMachine h) s3
              \<and> selectedMachine s3 = ''default'' \<and> modules s3 h \<noteq> None))
   \<and> (selectedMachine x = h \<longrightarrow>
        selectedMachine (snd (disconnect_resume h doDisconnect teardown x)) = ''default'')
   \<and> (selectedMachine x \<noteq> h \<longrightarrow>
        selectedMachine (snd (disconnect_resume h doDisconnect teardown x)) = selectedMachine x)
   \<and> (h \<noteq> ''default'' \<longrightarrow>
        selectedMachine (snd (disconnect_resume h doDisconnect teardown x)) \<noteq> h)"
proof -
  have reach: "selection_ok (st (run evs))"
    using system_ok_run [of evs] by (simp add: system_ok_def)
  then have sel: "modules (st (run evs)) (selectedMachine (st (run evs))) \<noteq> None"
    by (simp add: selection_ok_def)
  have ops: "selection_ok (snd (connect hostname user password io s))
        \<and> selection_ok (snd (disconnect p teardown s))
        \<and> selection_ok (snd (sendCode code r s))" if "selection_ok s"
    using that by (simp add: selection_ok_connect selection_ok_disconnect selection_ok_sendCode)
  have dis: "fst (disconnect p teardown s) = None
        \<and> selectedMachine (snd (disconnect p teardown s)) = ''default''
        \<and> (\<exists>s3. snd (disconnect p teardown s) = commit (RemoveMachine h) s3
              \<and> selectedMachine s3 = ''default'' \<and> modules s3 h \<noteq> None)"
    if "selectedMachine s = h" "h \<noteq> ''default''" "modules s h \<noteq> None"
      "disconnect_payload p s = (h, doDisconnect)"
    using that
    by (auto simp: disconnect_def disconnect_admit_def disconnect_resume_def Let_def
        split: option.splits)
  have res: "selectedMachine (snd (disconnect_resume h doDisconnect teardown x)) = ''default''"
    if "selectedMachine x = h"
    using that by (simp add: disconnect_resume_fields)
  have other: "selectedMachine (snd (disconnect_resume h doDisconnect teardown x)) = selectedMachine x"
    if "selectedMachine x \<noteq> h"
    using that by (simp add: disconnect_resume_fields)
  have gone: "selectedMachine (snd (disconnect_resume h doDisconnect teardown x)) \<noteq> h"
    if "h \<noteq> ''default''"
    using that by (auto simp: disconnect_resume_fields)
  from reach sel ops dis res other gone show ?thesis by blast
qed

theorem selection_resolves_witness:
  "selection_ok (initial :: nat store)
   \<and> selection_ok (snd (connect ''10.0.0.5'' [] ''reprap''
        \<lparr>handshake = Inr (1::nat), machine_throws = None, register_throws = None\<rparr> initial))
   \<and> selectedMachine (st (run [Call_connect ''10.0.0.5'' [] ''reprap'',
        Settle_connect ''10.0.0.5'' \<lparr>handshake = Inr (1::nat), machine_throws = None, register_throws = None\<rparr>]))
      = ''10.0.0.5''
   \<and> ''10.0.0.5'' \<noteq> ''default''
   \<and> modules (st (run [Call_connect ''10.0.0.5'' [] ''reprap'',
        Settle_connect ''10.0.0.5'' \<lparr>handshake = Inr (1::nat), machine_throws = None, register_throws = None\<rparr>]))
        ''10.0.0.5'' \<noteq> None
   \<and> selectedMachine (snd (disconnect None (Some new_TimeoutError)
        (st (run [Call_connect ''10.0.0.5'' [] ''reprap'',
           Settle_connect ''10.0.0.5'' \<lparr>handshake = Inr (1::nat), machine_throws = None, register_throws = None\<rparr>]))))
      = ''default''"
proof -
  let ?io = "\<lparr>handshake = Inr (1::nat), machine_throws = None, register_throws = None\<rparr>"
  let ?evs = "[Call_connect ''10.0.0.5'' [] ''reprap'', Settle_connect ''10.0.0.5'' ?io]"
  let ?s = "st (run ?evs)"
  have i: "selection_ok (initial :: nat store)"
    by (simp add: selection_ok_def initial_def)
  have s: "selectedMachine ?s = ''10.0.0.5''" "modules ?s ''10.0.0.5'' \<noteq> None"
    by (simp_all add: run_def action_defs initial_def Let_def)
  then have p: "disconnect_payload None ?s = (''10.0.0.5'', True)"
    by (simp add: disconnect_payload_def)
  have n: "''10.0.0.5'' \<noteq> ''default''" by simp
  note t = selection_resolves [of "[]" initial "''10.0.0.5''" "[]" "''reprap''" ?io None None "[]" "Inr []"
      "''10.0.0.5''" True initial]
  from t i have a: "selection_ok (snd (connect ''10.0.0.5'' [] ''reprap'' ?io initial))" by blast
  note u = selection_resolves [of "[]" ?s "''10.0.0.5''" "[]" "''reprap''" ?io None "Some new_TimeoutError"
      "[]" "Inr []" "''10.0.0.5''" True initial]
  from u s p n have b: "selectedMachine (snd (disconnect None (Some new_TimeoutError) ?s)) = ''default''"
    by blast
  from i a s n b show ?thesis by blast
qed

text \<open>
  A disconnect of the selected endpoint does not always end with \<open>default\<close> selected.
  With \<open>a\<close> connected and selected and a connect of \<open>b\<close> waiting for its handshake,
  disconnect is called with no payload, so for the selected \<open>a\<close>, and waits for the
  teardown. The handshake of \<open>b\<close> settles first and selects \<open>b\<close>. When the teardown
  settles, the selection is not \<open>a\<close>, is left alone, and \<open>a\<close> is removed: the
  disconnect has ended, nothing waits, and \<open>b\<close> is selected.
\<close>

theorem disconnect_selected_overlapped_counterexample:
  "selectedMachine (st (run [Call_connect ''a'' [] ''reprap'',
        Settle_connect ''a'' \<lparr>handshake = Inr (1::nat), machine_throws = None, register_throws = None\<rparr>,
        Call_connect ''b'' [] ''reprap''])) = ''a''
   \<and> disconnect_payload None (st (run [Call_connect ''a'' [] ''reprap'',
        Settle_connect ''a'' \<lparr>handshake = Inr (1::nat), machine_throws = None, register_throws = None\<rparr>,
        Call_connect ''b'' [] ''reprap''])) = (''a'', True)
   \<and> pending (run [Call_connect ''a'' [] ''reprap'',
        Settle_connect ''a'' \<lparr>handshake = Inr (1::nat), machine_throws = None, register_throws = None\<rparr>,
        Call_connect ''b'' [] ''reprap'',
        Call_disconnect None]) = [ConnectTask ''b'', DisconnectTask ''a'']
   \<and> pending (run [Call_connect ''a'' [] ''reprap'',
        Settle_connect ''a'' \<lparr>handshake = Inr (1::nat), machine_throws = None, register_throws = None\<rparr>,
        Call_connect ''b'' [] ''reprap'',
        Call_disconnect None,
        Settle_connect ''b'' \<lparr>handshake = Inr 2, machine_throws = None, register_throws = None\<rparr>,
        Settle_disconnect ''a'' None]) = []
   \<and> modules (st (run [Call_connect ''a'' [] ''reprap'',
        Settle_connect ''a'' \<lparr>handshake = Inr (1::nat), machine_throws = None, register_throws = None\<rparr>,
        Call_connect ''b'' [] ''reprap'',
        Call_disconnect None,
        Settle_connect ''b'' \<lparr>handshake = Inr 2, machine_throws = None, register_throws = None\<rparr>,
        Settle_disconnect ''a'' None])) ''a'' = None
   \<and> selectedMachine (st (run [Call_connect ''a'' [] ''reprap'',
        Settle_connect ''a'' \<lparr>handshake = Inr (1::nat), machine_throws = None, register_throws = None\<rparr>,
        Call_connect ''b'' [] ''reprap'',
        Call_disconnect None,
        Settle_connect ''b'' \<lparr>handshake = Inr 2, machine_throws = None, register_throws = None\<rparr>,
        Settle_disconnect ''a'' None])) = ''b''
   \<and> ''b'' \<noteq> ''default''"
  by (simp add: run_def action_defs initial_def Let_def)

section \<open>In-flight transitions\<close>

text \<open>
  Claim C7, as the store has it. At most one connect is in flight at any instant: in every
  reachable state at most one connect waits, \<open>isConnecting\<close> holds exactly while one
  waits, and a connect called meanwhile is rejected and leaves the system as it was.
  Disconnect has no such check: its admission does not read \<open>isDisconnecting\<close>.
\<close>

theorem connect_single_flight:
  fixes evs :: "'c event list" and s :: "'c store"
  shows "length (filter is_connect (pending (run evs))) \<le> 1
   \<and> isConnecting (st (run evs)) = (\<exists>h. ConnectTask h \<in> set (pending (run evs)))
   \<and> ((\<exists>h. ConnectTask h \<in> set (pending (run evs))) \<longrightarrow>
        fst (connect_admit hostname user password (st (run evs))) \<noteq> None
        \<and> exec (Call_connect hostname user password) (run evs) = run evs)
   \<and> (isConnecting s \<longrightarrow>
        fst (connect_admit hostname user password s) \<noteq> None
        \<and> snd (connect_admit hostname user password s) = s)
   \<and> fst (disconnect_admit hostname doDisconnect (s\<lparr>isDisconnecting := b\<rparr>))
      = fst (disconnect_admit hostname doDisconnect s)"
proof -
  have ok: "system_ok (run evs)" by (rule system_ok_run)
  then have one: "length (filter is_connect (pending (run evs))) \<le> 1"
    and gate: "isConnecting (st (run evs)) = (\<exists>h. ConnectTask h \<in> set (pending (run evs)))"
    by (simp_all add: system_ok_def)
  have rej: "fst (connect_admit hostname user password y) \<noteq> None
        \<and> snd (connect_admit hostname user password y) = y" if "isConnecting y" for y :: "'c store"
    using that by (simp add: connect_admit_def)
  have sys: "fst (connect_admit hostname user password (st (run evs))) \<noteq> None
        \<and> exec (Call_connect hostname user password) (run evs) = run evs"
    if "\<exists>h. ConnectTask h \<in> set (pending (run evs))"
  proof -
    from that gate have "isConnecting (st (run evs))" by simp
    from rej [OF this] show ?thesis by (auto split: prod.splits)
  qed
  have dis: "fst (disconnect_admit hostname doDisconnect (s\<lparr>isDisconnecting := b\<rparr>))
      = fst (disconnect_admit hostname doDisconnect s)"
    by (simp add: disconnect_admit_def)
  from one gate sys rej [of s] dis show ?thesis by (intro conjI) blast+
qed

theorem connect_single_flight_witness:
  "pending (run [Call_connect ''a'' [] ''reprap'' :: nat event]) = [ConnectTask ''a'']
   \<and> isConnecting (st (run [Call_connect ''a'' [] ''reprap'' :: nat event]))
   \<and> fst (connect_admit ''b'' [] ''reprap'' (st (run [Call_connect ''a'' [] ''reprap'' :: nat event])))
       \<noteq> None
   \<and> exec (Call_connect ''b'' [] ''reprap'') (run [Call_connect ''a'' [] ''reprap'' :: nat event])
       = run [Call_connect ''a'' [] ''reprap'']
   \<and> snd (connect_admit ''b'' [] ''reprap'' (st (run [Call_connect ''a'' [] ''reprap'' :: nat event])))
       = st (run [Call_connect ''a'' [] ''reprap''])"
proof -
  let ?sys = "run [Call_connect ''a'' [] ''reprap'' :: nat event]"
  have p: "pending ?sys = [ConnectTask ''a'']"
    by (simp add: run_def connect_admit_def initial_def)
  then have e: "\<exists>h. ConnectTask h \<in> set (pending ?sys)" by simp
  note t = connect_single_flight [of "[Call_connect ''a'' [] ''reprap'' :: nat event]"
      "''b''" "[]" "''reprap''" "st ?sys" True False]
  from t e have c: "isConnecting (st ?sys)" by blast
  from t e have r: "fst (connect_admit ''b'' [] ''reprap'' (st ?sys)) \<noteq> None"
    "exec (Call_connect ''b'' [] ''reprap'') ?sys = ?sys"
    by blast+
  from t c have u: "snd (connect_admit ''b'' [] ''reprap'' (st ?sys)) = st ?sys" by blast
  from p c r u show ?thesis by blast
qed

text \<open>
  While the teardown of \<open>a\<close> is awaited and \<open>isDisconnecting\<close> is true, a disconnect
  of \<open>b\<close> is admitted, and two disconnects are in flight.
\<close>

theorem two_disconnects_in_flight_counterexample:
  "isDisconnecting (st (run [Call_connect ''a'' [] ''reprap'',
          Settle_connect ''a'' \<lparr>handshake = Inr (1::nat), machine_throws = None, register_throws = None\<rparr>,
          Call_connect ''b'' [] ''reprap'',
          Settle_connect ''b'' \<lparr>handshake = Inr 2, machine_throws = None, register_throws = None\<rparr>,
          Call_disconnect (Some (''a'', None))]))
   \<and> pending (run [Call_connect ''a'' [] ''reprap'',
          Settle_connect ''a'' \<lparr>handshake = Inr (1::nat), machine_throws = None, register_throws = None\<rparr>,
          Call_connect ''b'' [] ''reprap'',
          Settle_connect ''b'' \<lparr>handshake = Inr 2, machine_throws = None, register_throws = None\<rparr>,
          Call_disconnect (Some (''a'', None))]) = [DisconnectTask ''a'']
   \<and> fst (disconnect (Some (''b'', None)) None (st (run [Call_connect ''a'' [] ''reprap'',
          Settle_connect ''a'' \<lparr>handshake = Inr (1::nat), machine_throws = None, register_throws = None\<rparr>,
          Call_connect ''b'' [] ''reprap'',
          Settle_connect ''b'' \<lparr>handshake = Inr 2, machine_throws = None, register_throws = None\<rparr>,
          Call_disconnect (Some (''a'', None))]))) = None
   \<and> pending (run [Call_connect ''a'' [] ''reprap'',
          Settle_connect ''a'' \<lparr>handshake = Inr (1::nat), machine_throws = None, register_throws = None\<rparr>,
          Call_connect ''b'' [] ''reprap'',
          Settle_connect ''b'' \<lparr>handshake = Inr 2, machine_throws = None, register_throws = None\<rparr>,
          Call_disconnect (Some (''a'', None)),
          Call_disconnect (Some (''b'', None))]) = [DisconnectTask ''a'', DisconnectTask ''b'']
   \<and> length (filter is_disconnect (pending (run [Call_connect ''a'' [] ''reprap'',
          Settle_connect ''a'' \<lparr>handshake = Inr (1::nat), machine_throws = None, register_throws = None\<rparr>,
          Call_connect ''b'' [] ''reprap'',
          Settle_connect ''b'' \<lparr>handshake = Inr 2, machine_throws = None, register_throws = None\<rparr>,
          Call_disconnect (Some (''a'', None)),
          Call_disconnect (Some (''b'', None))]))) = 2"
  by (simp add: run_def disconnect_def action_defs initial_def Let_def)

section \<open>Sending codes\<close>

text \<open>
  Claim C8. When the dispatch resolves, sendCode passes the code, the response and the
  endpoint selected at the call to \<^verbatim>\<open>Logger.logCode\<close> and resolves. When the dispatch
  rejects with \<open>e\<close>, sendCode rejects with the same \<open>e\<close>, after logging nothing for a
  \<open>DisconnectedError\<close>, \<open>e\<close>'s message at warning level for a \<open>CodeBufferError\<close>, and
  at error level for any other error. Neither class has a subclass, so
  \<^verbatim>\<open>instanceof\<close> is equality of the class.
\<close>

theorem sendCode_outcomes:
  "sendCode code (Inr response) s
     = (None, s\<lparr>history := history s @
          [Call (Dispatch_sendCode (selectedMachine s) code),
           Call (Logger_logCode code response (selectedMachine s))]\<rparr>)
   \<and> sendCode code (Inl e) s
     = (Some e, s\<lparr>history := history s @
          [Call (Dispatch_sendCode (selectedMachine s) code)] @
          (if instanceof e DisconnectedError then []
           else if instanceof e CodeBufferError then [Call (Log LWarning (message e))]
           else [Call (Log LError (message e))])\<rparr>)
   \<and> instanceof e DisconnectedError = (cls e = DisconnectedError)
   \<and> instanceof e CodeBufferError = (cls e = CodeBufferError)"
proof -
  have a: "instanceof e DisconnectedError = (cls e = DisconnectedError)"
    by (cases "cls e") (simp_all add: instanceof_def prototype_chain_def)
  have b: "instanceof e CodeBufferError = (cls e = CodeBufferError)"
    by (cases "cls e") (simp_all add: instanceof_def prototype_chain_def)
  show ?thesis
    unfolding a b by (simp add: sendCode_def sendCode_resume_def call_def a b Let_def)
qed

theorem sendCode_outcomes_witness:
  "sendCode ''M115'' (Inr ''ok'') (initial :: nat store)
     = (None, initial\<lparr>history := [Call (Dispatch_sendCode ''default'' ''M115''),
                                   Call (Logger_logCode ''M115'' ''ok'' ''default'')]\<rparr>)
   \<and> sendCode ''M115'' (Inl new_DisconnectedError) (initial :: nat store)
     = (Some new_DisconnectedError,
        initial\<lparr>history := [Call (Dispatch_sendCode ''default'' ''M115'')]\<rparr>)
   \<and> sendCode ''M115'' (Inl new_CodeBufferError) (initial :: nat store)
     = (Some new_CodeBufferError,
        initial\<lparr>history := [Call (Dispatch_sendCode ''default'' ''M115''),
                             Call (Log LWarning (I18n_t ''error.codeBufferError'' []))]\<rparr>)
   \<and> sendCode ''M115'' (Inl new_CodeResponseError) (initial :: nat store)
     = (Some new_CodeResponseError,
        initial\<lparr>history := [Call (Dispatch_sendCode ''default'' ''M115''),
                             Call (Log LError (I18n_t ''error.codeResponseError'' []))]\<rparr>)"
proof -
  have i: "selectedMachine (initial :: nat store) = ''default''" "history (initial :: nat store) = []"
    by (simp_all add: initial_def)
  have c: "cls new_DisconnectedError = DisconnectedError" "cls new_CodeBufferError = CodeBufferError"
    "cls new_CodeResponseError = CodeResponseError"
    "message new_CodeBufferError = I18n_t ''error.codeBufferError'' []"
    "message new_CodeResponseError = I18n_t ''error.codeResponseError'' []"
    by (simp_all add: new_DisconnectedError_def new_CodeBufferError_def new_CodeResponseError_def)
  show ?thesis
    using sendCode_outcomes [of "''M115''" "''ok''" "initial :: nat store" new_DisconnectedError]
      sendCode_outcomes [of "''M115''" "''ok''" "initial :: nat store" new_CodeBufferError]
      sendCode_outcomes [of "''M115''" "''ok''" "initial :: nat store" new_CodeResponseError]
    by (simp add: i c)
qed

section \<open>The getter isConnected\<close>

text \<open>
  Claim C9. \<open>isConnected\<close> is true exactly when the selected endpoint is not
  \<open>default\<close>, in every state and so in every reachable one; it is false in the initial
  state, and false again after the selected session has been disconnected.
\<close>

theorem isConnected_getter:
  fixes evs :: "'c event list" and s x :: "'c store"
  shows "isConnected s = (selectedMachine s \<noteq> ''default'')
   \<and> isConnected (st (run evs)) = (selectedMachine (st (run evs)) \<noteq> ''default'')
   \<and> \<not> isConnected (initial :: 'c store)
   \<and> \<not> isConnected (st (run ([] :: 'c event list)))
   \<and> (selectedMachine s = h \<and> modules s h \<noteq> None \<and> disconnect_payload p s = (h, d) \<longrightarrow>
        \<not> isConnected (snd (disconnect p teardown s)))
   \<and> (selectedMachine x = h \<longrightarrow> \<not> isConnected (snd (disconnect_resume h d teardown x)))"
  by (auto simp: isConnected_def initial_def run_def disconnect_def disconnect_admit_def
      disconnect_resume_fields)

theorem isConnected_getter_witness:
  "selectedMachine (snd (connect ''10.0.0.5'' [] ''reprap''
        \<lparr>handshake = Inr (1::nat), machine_throws = None, register_throws = None\<rparr> initial)) = ''10.0.0.5''
   \<and> isConnected (snd (connect ''10.0.0.5'' [] ''reprap''
        \<lparr>handshake = Inr (1::nat), machine_throws = None, register_throws = None\<rparr> initial))
   \<and> \<not> isConnected (snd (disconnect None None (snd (connect ''10.0.0.5'' [] ''reprap''
        \<lparr>handshake = Inr (1::nat), machine_throws = None, register_throws = None\<rparr> initial))))"
proof -
  let ?io = "\<lparr>handshake = Inr (1::nat), machine_throws = None, register_throws = None\<rparr>"
  let ?s = "snd (connect ''10.0.0.5'' [] ''reprap'' ?io initial)"
  have s: "selectedMachine ?s = ''10.0.0.5''" "modules ?s ''10.0.0.5'' \<noteq> None"
    by (simp_all add: connect_def action_defs initial_def Let_def)
  then have p: "disconnect_payload None ?s = (''10.0.0.5'', True)"
    by (simp add: disconnect_payload_def)
  note t = isConnected_getter [of ?s "[]" "''10.0.0.5''" None True None initial]
  have n: "''10.0.0.5'' \<noteq> ''default''" by simp
  from conjunct1 [OF t] s(1) n have a: "isConnected ?s" by simp
  from t s p have b: "\<not> isConnected (snd (disconnect None None ?s))" by blast
  from s(1) a b show ?thesis by blast
qed

end
